theory Spec2Isabelle
  imports Complex_Main "HOL-Library.Char_ord" "HOL-Library.List_Lexorder"
begin

section \<open>BarakahBoost: component scorers, aggregation and the daily pipeline\<close>

text \<open>
  Python floats are modelled as the reals they approximate and Python integers as \<open>int\<close>.
  A dictionary whose iteration order matters is an association list with distinct keys;
  a dictionary that is only looked up is a map. Every \<open>raise\<close> of the source is a value
  \<open>Inl e\<close> of the result type \<open>py_error + 'a\<close>.
\<close>

datatype py_error = KeyError | ZeroDivisionError | ValueError | TypeError | AttributeError

subsection \<open>utils/scoring.py: helper scalers\<close>

definition minmax :: "real \<Rightarrow> real \<Rightarrow> real \<Rightarrow> real" where
  "minmax val min_v max_v =
     (if max_v \<le> min_v then 0
      else max 0 (min 1 ((val - min_v) / (max_v - min_v))) * 100)"

definition inverse_minmax :: "real \<Rightarrow> real \<Rightarrow> real \<Rightarrow> real" where
  "inverse_minmax val min_v max_v = 100 - minmax val min_v max_v"

subsection \<open>utils/scoring.py: component scoring functions\<close>


text \<open>
  A recitation item is a dictionary read with \<open>r.get("surah")\<close> and \<open>r.get("ayahs", 0)\<close>:
  either key may be absent. The table \<open>NAME_TO_AYAH\<close> lives in \<open>data/reference/surah_meta\<close>
  and is a parameter of the model.
\<close>

record recitation =
  surah :: "string option"
  ayahs :: "int option"

definition ayat_of :: "(string \<rightharpoonup> int) \<Rightarrow> recitation \<Rightarrow> int" where
  "ayat_of name_to_ayah r =
     (let ayat = (case ayahs r of None \<Rightarrow> 0 | Some a \<Rightarrow> a)
      in if ayat = 0
         then (case surah r of None \<Rightarrow> 0
               | Some sname \<Rightarrow> (case name_to_ayah sname of None \<Rightarrow> 0 | Some n \<Rightarrow> n))
         else ayat)"

fun quran_pts :: "(string \<rightharpoonup> int) \<Rightarrow> real \<Rightarrow> recitation list \<Rightarrow> real \<Rightarrow> real" where
  "quran_pts name_to_ayah base [] pts = pts"
| "quran_pts name_to_ayah base (r # rs) pts =
     quran_pts name_to_ayah base rs (pts + real_of_int (ayat_of name_to_ayah r) * base)"

definition score_quran ::
  "(string \<rightharpoonup> int) \<Rightarrow> recitation list \<Rightarrow> real \<Rightarrow> int \<Rightarrow> py_error + real" where
  "score_quran name_to_ayah recitations base_points_per_ayah max_daily_points =
     (if recitations = [] then Inr 0
      else (let pts = quran_pts name_to_ayah base_points_per_ayah recitations 0
            in if max_daily_points = 0 then Inl ZeroDivisionError
               else Inr (min 100 ((pts / real_of_int max_daily_points) * 100))))"


text \<open>
  \<open>math.log(x, base)\<close> takes the logarithm of \<open>x\<close>, then of \<open>base\<close>, and divides: a
  non-positive argument is a \<open>ValueError\<close>, base 1 a \<open>ZeroDivisionError\<close>.
\<close>

definition math_log :: "real \<Rightarrow> real \<Rightarrow> py_error + real" where
  "math_log x base =
     (if x \<le> 0 then Inl ValueError
      else if base \<le> 0 then Inl ValueError
      else if ln base = 0 then Inl ZeroDivisionError
      else Inr (ln x / ln base))"

definition score_sadaqah :: "real \<Rightarrow> bool \<Rightarrow> real \<Rightarrow> int \<Rightarrow> py_error + real" where
  "score_sadaqah amount0 log_scale log_base max_daily_points =
     (let amount = max 0 amount0
      in if amount \<le> 0 then Inr 0
         else if log_scale
         then (case math_log (amount + 1) log_base of
                 Inl e \<Rightarrow> Inl e
               | Inr val \<Rightarrow>
                   (case math_log (1000 + 1) log_base of
                      Inl e \<Rightarrow> Inl e
                    | Inr den \<Rightarrow>
                        if den = 0 then Inl ZeroDivisionError
                        else Inr (min 100 ((val / den) * 100))))
         else Inr (min 100 ((amount / 1000) * 100)))"

text \<open>
  \<open>_to_time\<close> is \<open>datetime.strptime(tstr, "%H:%M").time()\<close>; the parser is a parameter
  \<open>to_time\<close> that returns a time of day or raises. Any exception inside the \<open>try\<close> block
  leaves the bonus at 0.
\<close>

definition score_sleep ::
  "(string \<Rightarrow> py_error + 't::linorder) \<Rightarrow> real option \<Rightarrow> string option \<Rightarrow> real \<Rightarrow> real
     \<Rightarrow> string \<Rightarrow> int \<Rightarrow> real" where
  "score_sleep to_time hours bedtime ideal_min ideal_max bedtime_bonus_before max_daily_points =
     (let core = (case hours of
                    None \<Rightarrow> 0
                  | Some h \<Rightarrow>
                      if h < ideal_min then minmax h (ideal_min - 3) ideal_min
                      else if h > ideal_max then inverse_minmax h ideal_max (ideal_max + 3)
                      else 100);
          bonus = (case bedtime of
                     None \<Rightarrow> 0
                   | Some b \<Rightarrow>
                       if b = [] then 0
                       else (case to_time b of
                               Inl e \<Rightarrow> 0
                             | Inr tb \<Rightarrow>
                                 (case to_time bedtime_bonus_before of
                                    Inl e \<Rightarrow> 0
                                  | Inr tlim \<Rightarrow> if tb \<le> tlim then 10 else (0::real))))
      in min 100 (max 0 core + bonus))"

text \<open>
  The screen-time policy is a dictionary indexed with \<open>cfg["productive_apps"]\<close>,
  \<open>cfg["distracting_apps"]\<close> and \<open>cfg["max_daily_minutes"]\<close>; a missing key raises.
\<close>

record screen_cfg =
  productive_apps :: "string list option"
  distracting_apps :: "string list option"
  max_daily_minutes :: "real option"

definition minutes_in :: "string list \<Rightarrow> (string \<times> real) list \<Rightarrow> real" where
  "minutes_in apps app_minutes =
     sum_list (map snd (filter (\<lambda>(a, m). a \<in> set apps) app_minutes))"

definition score_screen_time :: "(string \<times> real) list \<Rightarrow> screen_cfg \<Rightarrow> py_error + real" where
  "score_screen_time app_minutes cfg =
     (if app_minutes = [] then Inr 50
      else (case productive_apps cfg of
              None \<Rightarrow> Inl KeyError
            | Some pa \<Rightarrow>
                (case distracting_apps cfg of
                   None \<Rightarrow> Inl KeyError
                 | Some da \<Rightarrow>
                     (let prod = minutes_in pa app_minutes;
                          dist = minutes_in da app_minutes;
                          total = max (prod + dist) 1;
                          ratio = prod / total
                      in (case max_daily_minutes cfg of
                            None \<Rightarrow> Inl KeyError
                          | Some mdm \<Rightarrow>
                              (let dist_penalty = 1 - min 1 (dist / max 1 mdm);
                                   combined = 0.6 * ratio + 0.4 * dist_penalty
                               in Inr (max 0 (min 1 combined) * 100)))))))"

definition score_other :: "int \<Rightarrow> int \<Rightarrow> int \<Rightarrow> int \<Rightarrow> real" where
  "score_other good_count bad_count good_points bad_points =
     (let pos = good_count * good_points;
          neg = bad_count * bad_points;
          raw = pos - neg
      in max 0 (min 100 (real_of_int (raw + 100) / 200 * 100)))"

text \<open>\<open>weighted_baraka_score\<close>: \<open>sw\<close> is the sum of the weights, or 1 when that sum is 0.\<close>

definition weighted_baraka_score :: "(string \<rightharpoonup> real) \<Rightarrow> (string \<times> real) list \<Rightarrow> real" where
  "weighted_baraka_score components weights =
     (let s = sum_list (map snd weights);
          sw = (if s = 0 then 1 else s)
      in sum_list (map (\<lambda>(k, w). (case components k of None \<Rightarrow> 0 | Some c \<Rightarrow> c) * (w / sw))
                       weights))"



subsection \<open>scripts/process_barakah.py: the feature builder\<close>

text \<open>
  A raw entry is modelled as the logging form writes it, with every key present: the five
  prayer flags, the recitation list, the counts and amounts, the bedtime string, the
  app-minutes dictionary and the four outcome ratings (a rating may be absent).
  \<open>pd.to_datetime(...).dt.date.astype(str)\<close> is the parameter \<open>to_date\<close>, which
  normalises one date string or raises.
\<close>

record raw_entry =
  log_date :: string
  log_Fajr :: bool
  log_Dhuhr :: bool
  log_Asr :: bool
  log_Maghrib :: bool
  log_Isha :: bool
  log_quran_recs :: "recitation list"
  log_dhikr_reps :: int
  log_sadaqah_amount :: real
  log_sleep_hours :: real
  log_bedtime :: string
  log_app_minutes :: "(string \<times> real) list"
  log_other_good :: int
  log_other_bad :: int
  log_clarity :: "int option"
  log_focus :: "int option"
  log_calm :: "int option"
  log_productivity :: "int option"

record feature =
  date :: string
  prayer_on_time :: real
  quran_items :: int
  dhikr_reps :: int
  sadaqah_amount :: real
  sleep_hours :: real
  bedtime :: string
  other_good :: int
  other_bad :: int
  prod_minutes :: real
  dist_minutes :: real
  clarity :: "int option"
  focus :: "int option"
  calm :: "int option"
  productivity :: "int option"

text \<open>The policy sections of the configuration; a section that is absent is \<open>None\<close>.\<close>

record quran_cfg =
  quran_base_points_per_ayah :: real
  quran_max_daily_points :: int

record dhikr_cfg =
  dhikr_points_per_repetition :: real
  dhikr_max_daily_points :: int

record sadaqah_cfg =
  sadaqah_log_scale :: bool
  sadaqah_log_base :: real
  sadaqah_max_daily_points :: int

record sleep_cfg =
  ideal_min_hours :: real
  ideal_max_hours :: real
  bedtime_bonus_before :: string
  sleep_max_daily_points :: int

record other_cfg =
  good_points :: int
  bad_points :: int

record config =
  weights :: "(string \<times> real) list option"
  quran :: "quran_cfg option"
  dhikr :: "dhikr_cfg option"
  sadaqah :: "sadaqah_cfg option"
  sleep :: "sleep_cfg option"
  screen_time :: "screen_cfg option"
  other :: "other_cfg option"

text \<open>The mean of the five prayer columns, each flag cast to 0 or 1.\<close>

definition prayer_mean :: "raw_entry \<Rightarrow> real" where
  "prayer_mean e =
     (of_bool (log_Fajr e) + of_bool (log_Dhuhr e) + of_bool (log_Asr e)
        + of_bool (log_Maghrib e) + of_bool (log_Isha e)) / 5"

text \<open>\<open>sum(int(x.get("ayahs", 0)) for x in xs)\<close>.\<close>

definition quran_items_of :: "recitation list \<Rightarrow> int" where
  "quran_items_of xs = sum_list (map (\<lambda>x. case ayahs x of None \<Rightarrow> 0 | Some a \<Rightarrow> a) xs)"

text \<open>
  \<open>split_minutes\<close>: the app lists are read with
  \<open>cfg.get("screen_time", {}).get(..., [])\<close>, so an absent section or list is empty.
\<close>

fun split_loop :: "string list \<Rightarrow> string list \<Rightarrow> (string \<times> real) list \<Rightarrow> real \<times> real
    \<Rightarrow> real \<times> real" where
  "split_loop prod_apps dist_apps [] (prod_m, dist_m) = (prod_m, dist_m)"
| "split_loop prod_apps dist_apps ((a, mins) # rest) (prod_m, dist_m) =
     split_loop prod_apps dist_apps rest
       (if a \<in> set prod_apps then prod_m + mins else prod_m,
        if a \<in> set dist_apps then dist_m + mins else dist_m)"

definition split_minutes :: "config \<Rightarrow> (string \<times> real) list \<Rightarrow> real \<times> real" where
  "split_minutes cfg m =
     (let prod_apps = (case screen_time cfg of None \<Rightarrow> []
                       | Some sc \<Rightarrow> (case productive_apps sc of None \<Rightarrow> [] | Some l \<Rightarrow> l));
          dist_apps = (case screen_time cfg of None \<Rightarrow> []
                       | Some sc \<Rightarrow> (case distracting_apps sc of None \<Rightarrow> [] | Some l \<Rightarrow> l))
      in split_loop prod_apps dist_apps m (0, 0))"

text \<open>The feature row of one raw entry whose date has been normalised to \<open>d\<close>.\<close>

definition entry_features :: "config \<Rightarrow> string \<Rightarrow> raw_entry \<Rightarrow> feature" where
  "entry_features cfg d e =
     \<lparr>date = d,
      prayer_on_time = prayer_mean e,
      quran_items = quran_items_of (log_quran_recs e),
      dhikr_reps = log_dhikr_reps e,
      sadaqah_amount = log_sadaqah_amount e,
      sleep_hours = log_sleep_hours e,
      bedtime = log_bedtime e,
      other_good = log_other_good e,
      other_bad = log_other_bad e,
      prod_minutes = fst (split_minutes cfg (log_app_minutes e)),
      dist_minutes = snd (split_minutes cfg (log_app_minutes e)),
      clarity = log_clarity e,
      focus = log_focus e,
      calm = log_calm e,
      productivity = log_productivity e\<rparr>"

fun flatten :: "(string \<Rightarrow> py_error + string) \<Rightarrow> config \<Rightarrow> raw_entry list
    \<Rightarrow> py_error + feature list" where
  "flatten to_date cfg [] = Inr []"
| "flatten to_date cfg (e # es) =
     (case to_date (log_date e) of
        Inl err \<Rightarrow> Inl err
      | Inr d \<Rightarrow>
          (case flatten to_date cfg es of
             Inl err \<Rightarrow> Inl err
           | Inr fs \<Rightarrow> Inr (entry_features cfg d e # fs)))"

text \<open>\<open>drop_duplicates("date", keep="last")\<close>: a row is dropped when a later row has its date.\<close>

fun drop_duplicates_last :: "feature list \<Rightarrow> feature list" where
  "drop_duplicates_last [] = []"
| "drop_duplicates_last (r # rs) =
     (if date r \<in> set (map date rs) then drop_duplicates_last rs
      else r # drop_duplicates_last rs)"

text \<open>
  \<open>build_features\<close>. \<open>sort_values("date")\<close> is modelled as a stable sort on the date
  string: rows with equal dates keep their submission order.
\<close>

definition build_features :: "(string \<Rightarrow> py_error + string) \<Rightarrow> config \<Rightarrow> raw_entry list
    \<Rightarrow> py_error + feature list" where
  "build_features to_date cfg logs =
     (if logs = [] then Inr []
      else (case flatten to_date cfg logs of
              Inl err \<Rightarrow> Inl err
            | Inr feat \<Rightarrow> Inr (drop_duplicates_last (sort_key date feat))))"

subsection \<open>scripts/calculate_barakah.py: component scores of a feature row\<close>

text \<open>
  \<open>calculate_score_components\<close> fills the dictionary \<open>components\<close> key by key; indexing
  an absent configuration section raises \<open>KeyError\<close>, and dividing by a zero
  \<open>max_daily_points\<close> raises \<open>ZeroDivisionError\<close>. The function steps below follow the
  order of the source.
\<close>

definition quran_component :: "feature \<Rightarrow> config \<Rightarrow> py_error + real" where
  "quran_component row cfg =
     (case quran cfg of
        None \<Rightarrow> Inl KeyError
      | Some qc \<Rightarrow>
          (let quran_max = quran_max_daily_points qc
           in if quran_max = 0 then Inl ZeroDivisionError
              else Inr (min 100 ((real_of_int (quran_items row) / real_of_int quran_max) * 100))))"

definition dhikr_component :: "feature \<Rightarrow> config \<Rightarrow> py_error + real" where
  "dhikr_component row cfg =
     (case dhikr cfg of
        None \<Rightarrow> Inl KeyError
      | Some dc \<Rightarrow>
          (let dhikr_points = real_of_int (dhikr_reps row) * dhikr_points_per_repetition dc
           in if dhikr_max_daily_points dc = 0 then Inl ZeroDivisionError
              else Inr (min 100 ((dhikr_points / real_of_int (dhikr_max_daily_points dc)) * 100))))"

definition sadaqah_component :: "feature \<Rightarrow> config \<Rightarrow> py_error + real" where
  "sadaqah_component row cfg =
     (case sadaqah cfg of
        None \<Rightarrow> Inl KeyError
      | Some sc \<Rightarrow>
          score_sadaqah (sadaqah_amount row) (sadaqah_log_scale sc) (sadaqah_log_base sc)
            (sadaqah_max_daily_points sc))"

definition sleep_component ::
  "(string \<Rightarrow> py_error + 't::linorder) \<Rightarrow> feature \<Rightarrow> config \<Rightarrow> py_error + real" where
  "sleep_component to_time row cfg =
     (case sleep cfg of
        None \<Rightarrow> Inl KeyError
      | Some sc \<Rightarrow>
          Inr (score_sleep to_time (Some (sleep_hours row))
                 (if bedtime row = [] then None else Some (bedtime row))
                 (ideal_min_hours sc) (ideal_max_hours sc) (bedtime_bonus_before sc)
                 (sleep_max_daily_points sc)))"

definition screen_time_component :: "feature \<Rightarrow> config \<Rightarrow> py_error + real" where
  "screen_time_component row cfg =
     (let screen_time_data = [(''productive'', prod_minutes row),
                              (''distracting'', dist_minutes row)]
      in (case screen_time cfg of
            None \<Rightarrow> Inl KeyError
          | Some sc \<Rightarrow>
              (case max_daily_minutes sc of
                 None \<Rightarrow> Inl KeyError
               | Some mdm \<Rightarrow>
                   score_screen_time screen_time_data
                     \<lparr>productive_apps = Some [''productive''],
                      distracting_apps = Some [''distracting''],
                      max_daily_minutes = Some mdm\<rparr>)))"

definition calculate_score_components ::
  "(string \<Rightarrow> py_error + 't::linorder) \<Rightarrow> feature \<Rightarrow> config \<Rightarrow> py_error + (string \<rightharpoonup> real)" where
  "calculate_score_components to_time row cfg =
     (let c1 = Map.empty(''prayer_on_time'' \<mapsto> prayer_on_time row * 100)
      in case quran_component row cfg of Inl e \<Rightarrow> Inl e | Inr q \<Rightarrow>
         (let c2 = c1(''quran_recitation'' \<mapsto> q)
          in case dhikr_component row cfg of Inl e \<Rightarrow> Inl e | Inr d \<Rightarrow>
             (let c3 = c2(''dhikr'' \<mapsto> d)
              in case sadaqah_component row cfg of Inl e \<Rightarrow> Inl e | Inr s \<Rightarrow>
                 (let c4 = c3(''sadaqah'' \<mapsto> s)
                  in case sleep_component to_time row cfg of Inl e \<Rightarrow> Inl e | Inr sl \<Rightarrow>
                     (let c5 = c4(''sleep'' \<mapsto> sl)
                      in case screen_time_component row cfg of Inl e \<Rightarrow> Inl e | Inr st \<Rightarrow>
                         (let c6 = c5(''screen_time'' \<mapsto> st)
                          in case other cfg of None \<Rightarrow> Inl KeyError | Some oc \<Rightarrow>
                             Inr (c6(''other_good'' \<mapsto>
                                        score_other (other_good row) 0
                                          (good_points oc) (bad_points oc),
                                     ''other_bad'' \<mapsto>
                                        score_other 0 (other_bad row)
                                          (good_points oc) (bad_points oc)))))))))"

text \<open>\<open>compute_scores\<close>: one score row per feature row, sorted by date.\<close>

record score_row =
  score_date :: string
  components :: "string \<rightharpoonup> real"
  baraka_score :: real
  score_clarity :: "int option"
  score_focus :: "int option"
  score_calm :: "int option"
  score_productivity :: "int option"

fun score_rows :: "(string \<Rightarrow> py_error + 't::linorder) \<Rightarrow> config \<Rightarrow> feature list
    \<Rightarrow> py_error + score_row list" where
  "score_rows to_time cfg [] = Inr []"
| "score_rows to_time cfg (row # feat) =
     (case calculate_score_components to_time row cfg of
        Inl e \<Rightarrow> Inl e
      | Inr comps \<Rightarrow>
          (case weights cfg of
             None \<Rightarrow> Inl KeyError
           | Some ws \<Rightarrow>
               (case score_rows to_time cfg feat of
                  Inl e \<Rightarrow> Inl e
                | Inr rows \<Rightarrow>
                    Inr (\<lparr>score_date = date row,
                          components = comps,
                          baraka_score = weighted_baraka_score comps ws,
                          score_clarity = clarity row,
                          score_focus = focus row,
                          score_calm = calm row,
                          score_productivity = productivity row\<rparr> # rows))))"

definition compute_scores ::
  "(string \<Rightarrow> py_error + string) \<Rightarrow> (string \<Rightarrow> py_error + 't::linorder) \<Rightarrow> config
    \<Rightarrow> raw_entry list \<Rightarrow> py_error + score_row list" where
  "compute_scores to_date to_time cfg logs =
     (case build_features to_date cfg logs of
        Inl e \<Rightarrow> Inl e
      | Inr feat \<Rightarrow>
          if feat = [] then Inr []
          else (case score_rows to_time cfg feat of
                  Inl e \<Rightarrow> Inl e
                | Inr rows \<Rightarrow> Inr (sort_key score_date rows)))"

subsection \<open>scripts/barakah_model.py: the model analyzer\<close>

text \<open>
  The processed feature table as \<open>pd.read_csv\<close> returns it: named columns of cells. A
  column is numeric when it holds no string. The library calls are parameters:
  \<open>pearson\<close> is the correlation of two columns (\<open>None\<close> for NaN) and \<open>train_model\<close>
  is the cross-validated forest fit, which may raise.
\<close>

datatype cell = Num real | Str string | NaN

type_synonym data_frame = "(string \<times> cell list) list"

record fit_result =
  cv_r2_mean :: real
  cv_r2_std :: real
  feature_importances :: "(string \<times> real) list"

datatype report =
    No_data
  | Insufficient_data "(string \<times> real) list"
  | Ok real real "(string \<times> real) list" "(string \<times> real) list" nat

definition is_numeric :: "cell list \<Rightarrow> bool" where
  "is_numeric xs = list_all (\<lambda>c. case c of Str s \<Rightarrow> False | _ \<Rightarrow> True) xs"

text \<open>\<open>df.corr(numeric_only=True).fillna(0)\<close>: one column of correlations per numeric column.\<close>

definition corr :: "(cell list \<Rightarrow> cell list \<Rightarrow> real option) \<Rightarrow> data_frame
    \<Rightarrow> (string \<times> (string \<times> real) list) list" where
  "corr pearson df =
     (let num = filter (\<lambda>(c, xs). is_numeric xs) df
      in map (\<lambda>(c, xs).
                (c, map (\<lambda>(c', ys). (c', case pearson ys xs of None \<Rightarrow> 0 | Some r \<Rightarrow> r)) num))
             num)"

text \<open>The mean of the outcome ratings of one row, skipping NaN; NaN when all are missing.\<close>

fun cell_vals :: "cell list \<Rightarrow> py_error + real list" where
  "cell_vals [] = Inr []"
| "cell_vals (Num v # cs) = (case cell_vals cs of Inl e \<Rightarrow> Inl e | Inr vs \<Rightarrow> Inr (v # vs))"
| "cell_vals (NaN # cs) = cell_vals cs"
| "cell_vals (Str s # cs) = Inl TypeError"

definition row_mean :: "cell list \<Rightarrow> py_error + real option" where
  "row_mean cs =
     (case cell_vals cs of
        Inl e \<Rightarrow> Inl e
      | Inr vs \<Rightarrow> Inr (if vs = [] then None else Some (sum_list vs / real (length vs))))"

fun row_means :: "(cell \<times> cell \<times> cell \<times> cell) list \<Rightarrow> py_error + real option list" where
  "row_means [] = Inr []"
| "row_means ((a, b, c, d) # rest) =
     (case row_mean [a, b, c, d] of
        Inl e \<Rightarrow> Inl e
      | Inr m \<Rightarrow> (case row_means rest of Inl e \<Rightarrow> Inl e | Inr ms \<Rightarrow> Inr (m # ms)))"

definition avg_outcome :: "data_frame \<Rightarrow> py_error + real option list" where
  "avg_outcome df =
     (case map_of df ''clarity'' of None \<Rightarrow> Inl KeyError | Some c1 \<Rightarrow>
      case map_of df ''focus'' of None \<Rightarrow> Inl KeyError | Some c2 \<Rightarrow>
      case map_of df ''calm'' of None \<Rightarrow> Inl KeyError | Some c3 \<Rightarrow>
      case map_of df ''productivity'' of None \<Rightarrow> Inl KeyError | Some c4 \<Rightarrow>
        row_means (zip c1 (zip c2 (zip c3 c4))))"

text \<open>\<open>dropna(subset=["avg_outcome"])\<close> keeps the rows whose mean is not NaN.\<close>

definition keep_rows :: "bool list \<Rightarrow> 'a list \<Rightarrow> 'a list" where
  "keep_rows keep xs = map fst (filter snd (zip xs keep))"

definition feature_columns :: "string list" where
  "feature_columns =
     [''prayer_on_time'', ''quran_items'', ''dhikr_reps'', ''sadaqah_amount'',
      ''sleep_hours'', ''prod_minutes'', ''dist_minutes'', ''other_good'', ''other_bad'']"

definition prepare_features_and_target :: "data_frame \<Rightarrow> bool list \<Rightarrow> real option list
    \<Rightarrow> data_frame \<times> real list" where
  "prepare_features_and_target df keep avgs =
     (let n = length (filter id keep);
          X = map (\<lambda>col. (col, case map_of df col of
                                  None \<Rightarrow> replicate n (Num 0)
                                | Some xs \<Rightarrow> map (\<lambda>c. case c of NaN \<Rightarrow> Num 0 | _ \<Rightarrow> c)
                                               (keep_rows keep xs)))
                  feature_columns;
          y = concat (map (\<lambda>a. case a of None \<Rightarrow> [] | Some v \<Rightarrow> [v]) avgs)
      in (X, y))"

definition train_and_analyze ::
  "(cell list \<Rightarrow> cell list \<Rightarrow> real option) \<Rightarrow> (data_frame \<Rightarrow> real list \<Rightarrow> py_error + fit_result)
     \<Rightarrow> data_frame option \<Rightarrow> py_error + report" where
  "train_and_analyze pearson train_model file =
     (case file of
        None \<Rightarrow> Inr No_data
      | Some df \<Rightarrow>
          (let corr_tab = corr pearson df
           in case avg_outcome df of
                Inl e \<Rightarrow> Inl e
              | Inr avgs \<Rightarrow>
                  (let keep = map (\<lambda>a. a \<noteq> None) avgs;
                       n = length (filter id keep)
                   in if n < 10
                      then (case map_of corr_tab ''avg_outcome'' of
                              None \<Rightarrow> Inl KeyError
                            | Some cs \<Rightarrow> Inr (Insufficient_data cs))
                      else (case prepare_features_and_target df keep avgs of
                              (X, y) \<Rightarrow>
                                (case train_model X y of
                                   Inl e \<Rightarrow> Inl e
                                 | Inr fit \<Rightarrow>
                                     (case map_of corr_tab ''avg_outcome'' of
                                        None \<Rightarrow> Inl KeyError
                                      | Some cs \<Rightarrow>
                                          Inr (Ok (cv_r2_mean fit) (cv_r2_std fit)
                                                 (feature_importances fit) cs n)))))))"

subsection \<open>Example inputs\<close>

text \<open>
  A configuration with every section present, and the entry the logging form writes for a
  day on which nothing was ticked or typed. The examples below vary single fields of it.
\<close>

definition example_cfg :: config where
  "example_cfg =
     \<lparr>weights = Some [(''prayer_on_time'', 0.3), (''quran_recitation'', 0.2), (''dhikr'', 0.1),
                      (''sadaqah'', 0.1), (''sleep'', 0.1), (''screen_time'', 0.1),
                      (''other_good'', 0.05), (''other_bad'', 0.05)],
      quran = Some \<lparr>quran_base_points_per_ayah = 1, quran_max_daily_points = 100\<rparr>,
      dhikr = Some \<lparr>dhikr_points_per_repetition = 0.1, dhikr_max_daily_points = 100\<rparr>,
      sadaqah = Some \<lparr>sadaqah_log_scale = True, sadaqah_log_base = 10,
                       sadaqah_max_daily_points = 100\<rparr>,
      sleep = Some \<lparr>ideal_min_hours = 6, ideal_max_hours = 8,
                     bedtime_bonus_before = ''23:00'', sleep_max_daily_points = 100\<rparr>,
      screen_time = Some \<lparr>productive_apps = Some [''Notion''],
                           distracting_apps = Some [''TikTok''],
                           max_daily_minutes = Some 180\<rparr>,
      other = Some \<lparr>good_points = 10, bad_points = 10\<rparr>\<rparr>"

definition blank_entry :: "string \<Rightarrow> raw_entry" where
  "blank_entry d =
     \<lparr>log_date = d, log_Fajr = False, log_Dhuhr = False, log_Asr = False,
      log_Maghrib = False, log_Isha = False, log_quran_recs = [], log_dhikr_reps = 0,
      log_sadaqah_amount = 0, log_sleep_hours = 0, log_bedtime = [],
      log_app_minutes = [], log_other_good = 0, log_other_bad = 0,
      log_clarity = Some 3, log_focus = Some 3, log_calm = Some 3,
      log_productivity = Some 3\<rparr>"

text \<open>A bedtime parser that accepts no string, for examples that leave the bedtime empty.\<close>

definition no_time :: "string \<Rightarrow> py_error + nat" where
  "no_time s = Inl ValueError"

text \<open>An excerpt of the reference table, and a day with one recitation logged as a whole surah.\<close>

definition surah_table :: "string \<rightharpoonup> int" where
  "surah_table = [''Al-Fatiha'' \<mapsto> 7, ''Al-Kahf'' \<mapsto> 110]"

definition kahf_entry :: raw_entry where
  "kahf_entry = (blank_entry ''2024-01-01'')
                  \<lparr>log_quran_recs := [\<lparr>surah = Some ''Al-Kahf'', ayahs = Some 0\<rparr>]\<rparr>"

text \<open>A feature row with one good and one bad habit.\<close>

definition habits_row :: feature where
  "habits_row = (entry_features example_cfg ''2024-01-01'' (blank_entry ''2024-01-01''))
                  \<lparr>other_good := 1, other_bad := 1\<rparr>"

text \<open>The feature table of one day, with the columns the feature builder writes.\<close>

definition example_table :: data_frame where
  "example_table =
     [(''date'', [Str ''2024-01-01'']), (''prayer_on_time'', [Num 1]), (''quran_items'', [Num 0]),
      (''dhikr_reps'', [Num 0]), (''sadaqah_amount'', [Num 0]), (''sleep_hours'', [Num 7]),
      (''bedtime'', [NaN]), (''other_good'', [Num 0]), (''other_bad'', [Num 0]),
      (''prod_minutes'', [Num 0]), (''dist_minutes'', [Num 0]), (''clarity'', [Num 3]),
      (''focus'', [Num 3]), (''calm'', [Num 3]), (''productivity'', [Num 3])]"


subsection \<open>Auxiliary notions for the proofs\<close>


text \<open>The component stored under a key by a component calculation that returned.\<close>

definition component_of :: "string \<Rightarrow> py_error + (string \<rightharpoonup> real) \<Rightarrow> real option" where
  "component_of k res = (case res of Inl e \<Rightarrow> None | Inr comps \<Rightarrow> comps k)"


section \<open>Properties\<close>

subsection \<open>Charitable giving\<close>

lemma score_sadaqah_valid:
  assumes "ls \<longrightarrow> 0 < lb \<and> lb \<noteq> 1"
  shows "score_sadaqah a ls lb m =
           Inr (if a \<le> 0 then 0
                else if ls then min 100 (ln (a + 1) / ln 1001 * 100)
                else min 100 (a / 1000 * 100))"
  using assms by (auto simp: score_sadaqah_def math_log_def Let_def max_def)

lemma score_sadaqah_Inr_cases:
  assumes "score_sadaqah a ls lb m = Inr x"
  shows "a \<le> 0 \<and> x = 0 \<or> (ls \<longrightarrow> 0 < lb \<and> lb \<noteq> 1)"
  using assms
  by (auto simp: score_sadaqah_def math_log_def Let_def max_def split: if_splits sum.splits)


lemma sadaqah_value_mono:
  assumes "a \<le> b"
  shows "(if a \<le> 0 then 0
          else if ls then min 100 (ln (a + 1) / ln 1001 * 100)
          else min 100 (a / 1000 * 100))
       \<le> (if b \<le> (0::real) then 0
          else if ls then min 100 (ln (b + 1) / ln 1001 * 100)
          else min 100 (b / 1000 * 100))"
proof -
  have l: "0 < ln (1001::real)" by (rule ln_gt_zero) simp
  have p: "0 < b \<Longrightarrow> 0 \<le> ln (b + 1) / ln 1001 * 100" using l by simp
  have q: "0 < a \<Longrightarrow> ln (a + 1) / ln 1001 * 100 \<le> ln (b + 1) / ln 1001 * 100"
    using assms l by (simp add: divide_right_mono)
  show ?thesis using assms p q by (auto simp: min_def)
qed

text \<open>
  C10. The argument \<open>max_daily_points\<close> of \<open>score_sadaqah\<close> has no influence on the
  charitable-giving score: for every amount, log-scale flag and log base, any two values
  of \<open>max_daily_points\<close> give the same result (the same score, or the same exception).
\<close>

theorem score_sadaqah_ignores_max_daily_points:
  "score_sadaqah amount log_scale log_base a = score_sadaqah amount log_scale log_base b"
  by (simp add: score_sadaqah_def)

text \<open>
  C9. For a fixed policy the charitable-giving score is monotonically non-decreasing in
  the amount: whenever \<open>a \<le> b\<close> and the scorer returns a score at both amounts, the score
  at \<open>a\<close> is at most the score at \<open>b\<close>. It does return at both amounts for every policy
  whose logarithm is defined (linear scaling, or a positive base other than 1).
\<close>

theorem score_sadaqah_monotone:
  assumes "a \<le> b"
  shows "(\<forall>x y. score_sadaqah a ls lb m = Inr x \<and> score_sadaqah b ls lb m = Inr y \<longrightarrow> x \<le> y)
       \<and> ((ls \<longrightarrow> 0 < lb \<and> lb \<noteq> 1) \<longrightarrow>
            (\<exists>x y. score_sadaqah a ls lb m = Inr x \<and> score_sadaqah b ls lb m = Inr y \<and> x \<le> y))"
proof (intro conjI allI impI)
  fix x y
  assume h: "score_sadaqah a ls lb m = Inr x \<and> score_sadaqah b ls lb m = Inr y"
  show "x \<le> y"
  proof (cases "ls \<longrightarrow> 0 < lb \<and> lb \<noteq> 1")
    case True
    from h show ?thesis
      unfolding score_sadaqah_valid [OF True] using sadaqah_value_mono [OF assms, of ls] by simp
  next
    case False
    with h score_sadaqah_Inr_cases [of a ls lb m x] score_sadaqah_Inr_cases [of b ls lb m y]
    have "x = 0" and "y = 0" by auto
    then show ?thesis by simp
  qed
next
  assume v: "ls \<longrightarrow> 0 < lb \<and> lb \<noteq> 1"
  show "\<exists>x y. score_sadaqah a ls lb m = Inr x \<and> score_sadaqah b ls lb m = Inr y \<and> x \<le> y"
    unfolding score_sadaqah_valid [OF v] using sadaqah_value_mono [OF assms, of ls] by simp
qed

theorem score_sadaqah_monotone_witness:
  "(2::real) \<le> 5 \<and>
   (\<exists>x y. score_sadaqah 2 True 10 100 = Inr x \<and> score_sadaqah 5 True 10 100 = Inr y \<and> x \<le> y)"
  using score_sadaqah_monotone [of 2 5 True 10 100] by simp

subsection \<open>Aggregation\<close>









subsection \<open>Range of the component scores\<close>

lemma minmax_bounds: "0 \<le> minmax v lo hi \<and> minmax v lo hi \<le> 100"
  by (simp add: minmax_def min_def max_def)














subsection \<open>Totality of the entry points\<close>






subsection \<open>The scoring pipeline on a logged day\<close>

text \<open>
  C1 says that a recitation item with a surah of the reference table and an explicit
  ayah count of 0 contributes that surah's total ayah count to the recitation total of
  the pipeline. The feature builder sums the explicit counts only and never consults the
  table, and the component calculation scores that sum: for the day with Al-Kahf logged
  as a whole surah the recitation total and the recitation component are 0, where
  \<open>score_quran\<close>, which does the lookup, scores the 110 ayahs at 100.
\<close>

theorem pipeline_recitation_ignores_reference_table:
  "quran_items_of [\<lparr>surah = Some sname, ayahs = Some 0\<rparr>] = 0
   \<and> map_sum id (map (\<lambda>r. (date r, quran_items r)))
        (build_features Inr example_cfg [kahf_entry]) = Inr [(''2024-01-01'', 0)]
   \<and> map_sum id (map (\<lambda>r. (score_date r, components r ''quran_recitation'')))
        (compute_scores Inr no_time example_cfg [kahf_entry]) = Inr [(''2024-01-01'', Some 0)]
   \<and> surah_table ''Al-Kahf'' = Some 110
   \<and> score_quran surah_table (log_quran_recs kahf_entry) 1 100 = Inr 100"
  by (simp add: compute_scores_def build_features_def entry_features_def blank_entry_def
      kahf_entry_def quran_items_of_def calculate_score_components_def example_cfg_def
      quran_component_def dhikr_component_def sadaqah_component_def sleep_component_def
      screen_time_component_def score_sadaqah_def score_screen_time_def Let_def
      minutes_in_def split_minutes_def surah_table_def score_quran_def ayat_of_def)

text \<open>
  C2 says that a day whose raw entry has no app minutes gets the screen-time component 50
  from the pipeline. \<open>score_screen_time\<close> returns 50 on an empty mapping, but the
  component calculation always hands it the two-entry mapping of productive and
  distracting minutes, which is never empty: for the blank day both minutes are 0, the
  ratio is 0, the distraction penalty is 1 and the component is 40.
\<close>

theorem pipeline_screen_time_without_data:
  "log_app_minutes (blank_entry ''2024-01-01'') = []
   \<and> score_screen_time (log_app_minutes (blank_entry ''2024-01-01'')) sc = Inr 50
   \<and> map_sum id (map (\<lambda>r. (date r, prod_minutes r, dist_minutes r)))
        (build_features Inr example_cfg [blank_entry ''2024-01-01''])
       = Inr [(''2024-01-01'', 0, 0)]
   \<and> map_sum id (map (\<lambda>r. (score_date r, components r ''screen_time'')))
        (compute_scores Inr no_time example_cfg [blank_entry ''2024-01-01''])
       = Inr [(''2024-01-01'', Some 40)]"
  by (simp add: compute_scores_def build_features_def entry_features_def blank_entry_def
      quran_items_of_def calculate_score_components_def example_cfg_def
      quran_component_def dhikr_component_def sadaqah_component_def sleep_component_def
      screen_time_component_def score_sadaqah_def score_screen_time_def Let_def
      minutes_in_def split_minutes_def)

text \<open>
  C3 as stated: the other-good and the other-bad component each equal the clamped score
  of the raw value that combines both counts, that is \<open>score_other\<close> of both counts. For
  a row with one good and one bad habit and 10 points each, that value is 50, but the
  components are 55 and 45.
\<close>

theorem other_components_counterexample:
  "other_good habits_row = 1 \<and> other_bad habits_row = 1
   \<and> score_other (other_good habits_row) (other_bad habits_row) 10 10 = 50
   \<and> component_of ''other_good'' (calculate_score_components no_time habits_row example_cfg)
       = Some 55
   \<and> component_of ''other_bad'' (calculate_score_components no_time habits_row example_cfg)
       = Some 45"
  by (simp add: habits_row_def entry_features_def blank_entry_def quran_items_of_def
      calculate_score_components_def example_cfg_def quran_component_def dhikr_component_def
      sadaqah_component_def sleep_component_def screen_time_component_def score_sadaqah_def
      score_screen_time_def Let_def minutes_in_def split_minutes_def score_other_def
      component_of_def)

text \<open>
  C3, amended. For every feature row and config on which the component calculation
  returns, the other-good component equals
  clamp((good_count * good_points + 100) / 200 * 100, 0, 100) and the other-bad component
  equals clamp((100 - bad_count * bad_points) / 200 * 100, 0, 100): each is
  \<open>score_other\<close> with the other count set to 0.
\<close>

theorem other_components_separate:
  assumes "calculate_score_components to_time row cfg = Inr comps"
  shows "\<exists>oc. other cfg = Some oc
          \<and> comps ''other_good'' = Some (score_other (other_good row) 0
                                            (good_points oc) (bad_points oc))
          \<and> comps ''other_bad'' = Some (score_other 0 (other_bad row)
                                           (good_points oc) (bad_points oc))
          \<and> comps ''other_good'' = Some (max 0 (min 100
                (real_of_int (other_good row * good_points oc + 100) / 200 * 100)))
          \<and> comps ''other_bad'' = Some (max 0 (min 100
                (real_of_int (100 - other_bad row * bad_points oc) / 200 * 100)))"
  using assms
  by (auto simp: calculate_score_components_def Let_def score_other_def
      split: sum.splits option.splits)

theorem other_components_separate_witness:
  "component_of ''other_good'' (calculate_score_components no_time habits_row example_cfg)
     = Some (score_other 1 0 10 10)
   \<and> component_of ''other_bad'' (calculate_score_components no_time habits_row example_cfg)
     = Some (score_other 0 1 10 10)"
proof -
  have "\<exists>comps. calculate_score_components no_time habits_row example_cfg = Inr comps"
    by (simp add: habits_row_def entry_features_def blank_entry_def quran_items_of_def
        calculate_score_components_def example_cfg_def quran_component_def
        dhikr_component_def sadaqah_component_def sleep_component_def
        screen_time_component_def score_sadaqah_def score_screen_time_def Let_def
        minutes_in_def split_minutes_def)
  then obtain comps
    where c: "calculate_score_components no_time habits_row example_cfg = Inr comps"
    by blast
  have g: "other_good habits_row = 1" "other_bad habits_row = 1"
    by (simp_all add: habits_row_def)
  have o: "other example_cfg = Some \<lparr>good_points = 10, bad_points = 10\<rparr>"
    by (simp add: example_cfg_def)
  from other_components_separate [OF c] o g
  have "comps ''other_good'' = Some (score_other 1 0 10 10)
      \<and> comps ''other_bad'' = Some (score_other 0 1 10 10)"
    by auto
  with c show ?thesis by (simp add: component_of_def)
qed

subsection \<open>The model analyzer on a short feature table\<close>

lemma map_of_corr_None:
  assumes "map_of df k = None"
  shows "map_of (corr pearson df) k = None"
proof -
  have "k \<notin> fst ` set df" using assms by (simp add: map_of_eq_None_iff)
  then have "k \<notin> fst ` set (corr pearson df)"
    by (force simp: corr_def Let_def)
  then show ?thesis by (simp add: map_of_eq_None_iff)
qed

lemma train_and_analyze_raises:
  assumes "map_of df ''avg_outcome'' = None"
  shows "\<exists>e. train_and_analyze pearson train_model (Some df) = Inl e"
  using map_of_corr_None [OF assms, of pearson]
  by (auto simp: train_and_analyze_def Let_def split: sum.splits prod.splits)

text \<open>
  C7 says that on a feature table with fewer than 10 outcome-bearing rows
  \<open>train_and_analyze\<close> returns the status \<open>insufficient_data\<close> with the raw correlations.
  The correlation table is computed before the column \<open>avg_outcome\<close> is added to the
  frame, so it has no such column and \<open>corr["avg_outcome"]\<close> raises \<open>KeyError\<close>: on the
  one-day table the analyzer raises, whatever the correlation and fitting routines are.
\<close>

theorem train_and_analyze_short_table_raises:
  "map_of example_table ''avg_outcome'' = None
   \<and> avg_outcome example_table = Inr [Some 3]
   \<and> train_and_analyze pearson train_model (Some example_table) = Inl KeyError"
  by (simp add: train_and_analyze_def example_table_def corr_def is_numeric_def
      avg_outcome_def row_mean_def Let_def)

subsection \<open>Deduplication by date\<close>





end
